theory Spec2Isabelle
  imports Main "HOL-Library.Word"
begin

section \<open>Topology gossip (package topo) and the block queue (package model)\<close>

text \<open>
  A shallow embedding of the Go package \<open>topo\<close> (the handler \<open>TopoHandler\<close>, its methods
  \<open>New\<close>, \<open>Start\<close>, \<open>Stop\<close>, \<open>Handle\<close>, \<open>sendLoop\<close>, \<open>Topology\<close>, \<open>Receive\<close>, \<open>write\<close>, and the
  snapshot type \<open>Topo\<close> with \<open>Serialize\<close> and \<open>Deserialize\<close>) and of \<open>BlockQueue.Enqueue\<close>.

  Everything the handler does to its collaborators (the logger, the monitor, the cuckoo filter,
  the peers' message channels, the Kafka producer, the termination channel and the wait group)
  is recorded, in program order, in the field \<open>trace\<close> of the handler state.
  The collaborators whose code is in other packages (protobuf, the cuckoo filter, the hash,
  JSON, the producer's constructor) are the fields of an environment record \<open>env\<close>.
\<close>

subsection \<open>Data\<close>

type_synonym byte = "8 word"
type_synonym bytes = "byte list"

text \<open>A runtime panic of Go, as a value.\<close>

datatype panic = NilPointerDereference | SliceBoundsOutOfRange

text \<open>The error values the package builds or passes on.\<close>

datatype error =
    InvalidTopoMsg string     \<comment> \<open>"receive invalid topoMsg from ..."\<close>
  | SameTopoMsg bytes         \<comment> \<open>"has received the same topoMsg: ..."\<close>
  | ProtoError string         \<comment> \<open>an error of proto.Marshal or proto.Unmarshal\<close>
  | ReadMsgError string       \<comment> \<open>an error of rw.ReadMsg\<close>
  | ProducerError string      \<comment> \<open>an error of sarama.NewAsyncProducer\<close>

text \<open>
  \<open>time.Time\<close>, as far as this package looks at it: the Unix seconds that \<open>Time.Unix()\<close>
  returns (an int64) and the nanoseconds within that second.
\<close>

record GoTime =
  unix_sec :: "64 word"
  nsec :: nat

definition time_Unix :: "64 word \<Rightarrow> nat \<Rightarrow> GoTime" where
  \<comment> \<open>\<open>time.Unix(sec, nsec)\<close> for \<open>nsec\<close> within a second\<close>
  "time_Unix s n = \<lparr>unix_sec = s, nsec = n\<rparr>"

definition Unix :: "GoTime \<Rightarrow> 64 word" where
  \<comment> \<open>\<open>t.Unix()\<close>\<close>
  "Unix t = unix_sec t"

record Topo =
  Pivot :: string
  Peers :: "string list"
  Time :: GoTime

text \<open>The generated protobuf message \<open>protos.Topo\<close>: the same fields, the time as int64.\<close>

record pbTopo =
  pb_Pivot :: string
  pb_Peers :: "string list"
  pb_Time :: "64 word"

text \<open>\<open>p2p.Msg\<close>; the field \<open>Id\<close> is named \<open>MsgId\<close> here.\<close>

record Msg =
  CmdSetID :: "64 word"
  Cmd :: "64 word"
  MsgId :: "64 word"
  Size :: "64 word"
  Payload :: bytes

text \<open>
  A \<open>Peer\<close>: the embedded \<open>*p2p.Peer\<close>, of which the package uses \<open>String()\<close> (and, in one
  error message, \<open>ID()\<close> and \<open>RemoteAddr()\<close>), and the message channel \<open>rw\<close>, identified by
  a number.
\<close>

record Peer =
  PeerString :: string
  rw :: nat

datatype AsyncProducer = AsyncProducer "string list"

datatype event =
    LogError string
  | LogInfo string
  | MonitorLogEvent string string
  | Discard Msg                      \<comment> \<open>\<open>msg.Discard()\<close>\<close>
  | FilterLookup bytes               \<comment> \<open>\<open>t.record.Lookup(hash)\<close>\<close>
  | FilterInsertUnique bytes         \<comment> \<open>\<open>t.record.InsertUnique(hash)\<close>\<close>
  | DeserializeCall bytes            \<comment> \<open>\<open>topo.Deserialize(buf)\<close>\<close>
  | WriteMsg Peer Msg                \<comment> \<open>\<open>p.rw.WriteMsg(msg)\<close>\<close>
  | ProducerInput string bytes       \<comment> \<open>a message sent on \<open>t.prod.Input()\<close>: topic and value\<close>
  | CloseTerm                        \<comment> \<open>\<open>close(t.term)\<close>\<close>
  | WgAdd
  | WgDone
  | WgWait                           \<comment> \<open>\<open>t.wg.Wait()\<close> has returned\<close>
  | GoSendLoop                       \<comment> \<open>\<open>go t.sendLoop()\<close>\<close>
  | TickerStop

text \<open>
  The handler. \<open>peers\<close> is the \<open>sync.Map\<close> from \<open>p.String()\<close> to the peer, as an
  association list with one entry per key, in the order \<open>Range\<close> visits it.
  \<open>prod'\<close> is the field \<open>prod\<close> (\<open>None\<close> is the nil interface), \<open>term_closed\<close> says whether
  the channel \<open>term\<close> has been closed, \<open>record'\<close> is the filter \<open>record\<close>, \<open>p2p\<close> is the server
  (\<open>None\<close> is nil), of which only \<open>URL()\<close> is used, and \<open>wg\<close> is the counter of the wait group.
\<close>

record 'f TopoHandler =
  peers :: "(string \<times> Peer) list"
  prod' :: "AsyncProducer option"
  term_closed :: bool
  record' :: 'f
  p2p :: "string option"
  wg :: nat
  trace :: "event list"

text \<open>The code of other packages that the handler calls.\<close>

record 'f env =
  Marshal :: "pbTopo \<Rightarrow> error + bytes"            \<comment> \<open>\<open>proto.Marshal\<close>\<close>
  Unmarshal :: "bytes \<Rightarrow> error + pbTopo"          \<comment> \<open>\<open>proto.Unmarshal\<close> into a new \<open>protos.Topo\<close>\<close>
  Hash :: "nat \<Rightarrow> bytes \<Rightarrow> bytes"                 \<comment> \<open>\<open>crypto.Hash(size, data)\<close>\<close>
  Json :: "Topo \<Rightarrow> bytes"                         \<comment> \<open>\<open>json.Marshal\<close> of a \<open>Topo\<close>\<close>
  NewCuckooFilter :: "nat \<Rightarrow> 'f"
  Lookup :: "'f \<Rightarrow> bytes \<Rightarrow> bool"
  InsertUnique :: "'f \<Rightarrow> bytes \<Rightarrow> 'f"
  NewAsyncProducer :: "string list \<Rightarrow> error + AsyncProducer"

definition CmdSet :: "64 word" where "CmdSet = 7"
definition topoCmd :: "64 word" where "topoCmd = 1"

definition emit :: "event \<Rightarrow> 'f TopoHandler \<Rightarrow> 'f TopoHandler" where
  "emit e t = t\<lparr>trace := trace t @ [e]\<rparr>"

definition emits :: "event list \<Rightarrow> 'f TopoHandler \<Rightarrow> 'f TopoHandler" where
  "emits es t = t\<lparr>trace := trace t @ es\<rparr>"

definition events_since :: "'f TopoHandler \<Rightarrow> 'f TopoHandler \<Rightarrow> event list" where
  \<comment> \<open>what a call that took the handler from \<open>t\<close> to \<open>t'\<close> has added to the trace\<close>
  "events_since t t' = drop (length (trace t)) (trace t')"

subsection \<open>The peer registry (a sync.Map)\<close>

fun Store :: "string \<Rightarrow> Peer \<Rightarrow> (string \<times> Peer) list \<Rightarrow> (string \<times> Peer) list" where
  "Store k v [] = [(k, v)]"
| "Store k v ((k', v') # ps) = (if k' = k then (k, v) # ps else (k', v') # Store k v ps)"

definition Delete :: "string \<Rightarrow> (string \<times> Peer) list \<Rightarrow> (string \<times> Peer) list" where
  "Delete k ps = filter (\<lambda>(k', v'). k' \<noteq> k) ps"

subsection \<open>The snapshot and its wire form\<close>

definition Serialize :: "'f env \<Rightarrow> Topo \<Rightarrow> error + bytes" where
  "Serialize env t =
     (case Marshal env \<lparr>pb_Pivot = Pivot t, pb_Peers = Peers t, pb_Time = Unix (Time t)\<rparr> of
        Inl err \<Rightarrow> Inl err
      | Inr data \<Rightarrow> (let hash = Hash env 32 data in Inr (hash @ data)))"

text \<open>\<open>Deserialize\<close> writes into its receiver: it returns the error and the receiver after the call.\<close>

definition Deserialize :: "'f env \<Rightarrow> Topo \<Rightarrow> bytes \<Rightarrow> error option \<times> Topo" where
  "Deserialize env t buf =
     (case Unmarshal env buf of
        Inl err \<Rightarrow> (Some err, t)
      | Inr pb \<Rightarrow>
          (None, t\<lparr>Pivot := pb_Pivot pb, Peers := pb_Peers pb, Time := time_Unix (pb_Time pb) 0\<rparr>))"

text \<open>\<open>new(Topo)\<close>: empty strings and the zero \<open>time.Time\<close>, January 1 of year 1.\<close>

definition new_Topo :: Topo where
  "new_Topo = \<lparr>Pivot = [], Peers = [], Time = \<lparr>unix_sec = - 62135596800, nsec = 0\<rparr>\<rparr>"

subsection \<open>The sink\<close>

text \<open>\<open>write'\<close> is the method \<open>write\<close>; it calls \<open>t.prod.Input()\<close>: on a nil \<open>prod\<close> that is a nil dereference.\<close>

definition write' :: "'f TopoHandler \<Rightarrow> string \<Rightarrow> bytes \<Rightarrow> panic + 'f TopoHandler" where
  "write' t topic data =
     (case prod' t of
        None \<Rightarrow> Inl NilPointerDereference
      | Some p \<Rightarrow> Inr (emit (ProducerInput topic data) t))"

subsection \<open>Receive\<close>

text \<open>The relay loop of \<open>Receive\<close>: \<open>t.peers.Range\<close> with the test \<open>id != sender.String()\<close>.\<close>

fun relay :: "Msg \<Rightarrow> Peer \<Rightarrow> (string \<times> Peer) list \<Rightarrow> event list" where
  "relay msg sender [] = []"
| "relay msg sender ((k, p) # ps) =
     (if k \<noteq> PeerString sender then WriteMsg p msg # relay msg sender ps
      else relay msg sender ps)"

text \<open>
  \<open>Receive\<close> returns its error (\<open>None\<close> is nil) and the handler after the call. The deferred
  \<open>msg.Discard()\<close> is the last event of every return.
\<close>

definition Receive ::
  "'f env \<Rightarrow> 'f TopoHandler \<Rightarrow> Msg \<Rightarrow> Peer \<Rightarrow> panic + (error option \<times> 'f TopoHandler)" where
  "Receive env t msg sender =
     (let length' = length (Payload msg) in
      if length' < 32 then
        Inr (Some (InvalidTopoMsg (PeerString sender)), emit (Discard msg) t)
      else
        let hash = take 32 (Payload msg);
            t1 = emit (FilterLookup hash) t
        in
        if Lookup env (record' t1) hash then
          Inr (Some (SameTopoMsg hash), emit (Discard msg) t1)
        else
          let t2 = emit (DeserializeCall (drop 32 (Payload msg))) t1 in
          case Deserialize env new_Topo (drop 32 (Payload msg)) of
            (Some err, topo) \<Rightarrow>
              Inr (Some err, emit (Discard msg) (emit (LogError ''deserialize topoMsg error'') t2))
          | (None, topo) \<Rightarrow>
              let t3 = emit (MonitorLogEvent ''topo'' ''receive'') t2;
                  t4 = (emit (FilterInsertUnique hash) t3)
                         \<lparr>record' := InsertUnique env (record' t3) hash\<rparr>;
                  t5 = emits (relay msg sender (peers t4)) t4
              in
              if prod' t5 \<noteq> None then
                (case write' (emit (MonitorLogEvent ''topo'' ''report'') t5)
                        ''p2p_status_event'' (Json env topo) of
                   Inl pn \<Rightarrow> Inl pn
                 | Inr t6 \<Rightarrow>
                     Inr (None, emit (Discard msg) (emit (LogInfo ''report topoMsg to kafka'') t6)))
              else Inr (None, emit (Discard msg) t5))"

subsection \<open>Construction, start and stop\<close>

text \<open>
  \<open>New\<close> drops the empty addresses and creates a producer only when an address is left;
  when the producer cannot be created, \<open>New\<close> returns the error and no handler.
\<close>

definition New :: "'f env \<Rightarrow> string list \<Rightarrow> error + 'f TopoHandler" where
  "New env addrs =
     (let t = \<lparr>peers = [], prod' = None, term_closed = False,
               record' = NewCuckooFilter env 1000, p2p = None, wg = 0, trace = []\<rparr>
      in
      if length addrs \<noteq> 0 then
        (let addrs1 = filter (\<lambda>a. a \<noteq> []) addrs in
         if length addrs1 \<noteq> 0 then
           (case NewAsyncProducer env addrs1 of
              Inl err \<Rightarrow> Inl err
            | Inr p \<Rightarrow> Inr ((emit (LogInfo ''topo producer created'') t)\<lparr>prod' := Some p\<rparr>))
         else Inr t)
      else Inr t)"

definition Start :: "'f TopoHandler \<Rightarrow> string \<Rightarrow> 'f TopoHandler" where
  \<comment> \<open>the argument is the server, of which only \<open>URL()\<close> is used\<close>
  "Start t svr = (emits [WgAdd, GoSendLoop] t)\<lparr>p2p := Some svr, wg := wg t + 1\<rparr>"

text \<open>
  The branch \<open>case <-t.term: return\<close> of \<open>sendLoop\<close>, with the two deferred calls in the
  order they run: \<open>ticker.Stop()\<close>, then \<open>t.wg.Done()\<close>.
\<close>

definition sendLoop_term :: "'f TopoHandler \<Rightarrow> 'f TopoHandler" where
  "sendLoop_term t = (emits [TickerStop, WgDone] t)\<lparr>wg := wg t - 1\<rparr>"

text \<open>
  \<open>t.wg.Wait()\<close> returns when the counter is zero. The counter counts the \<open>sendLoop\<close>
  goroutines that \<open>Start\<close> has launched and that have not returned; they are taken to be
  waiting in their \<open>select\<close>. When \<open>term\<close> is closed each of them takes the branch
  \<open>sendLoop_term\<close>, and \<open>Wait\<close> returns after the last one. When \<open>term\<close> is open and the
  counter is positive, \<open>Wait\<close> does not return: the result is \<open>None\<close>.
\<close>

fun run_sendLoops :: "nat \<Rightarrow> 'f TopoHandler \<Rightarrow> 'f TopoHandler" where
  "run_sendLoops 0 t = t"
| "run_sendLoops (Suc n) t = run_sendLoops n (sendLoop_term t)"

definition wg_Wait :: "'f TopoHandler \<Rightarrow> 'f TopoHandler option" where
  "wg_Wait t =
     (if wg t = 0 then Some (emit WgWait t)
      else if term_closed t then Some (emit WgWait (run_sendLoops (wg t) t))
      else None)"

text \<open>
  \<open>Stop\<close>: the \<open>select\<close> takes \<open>case <-t.term\<close>, whose body is empty, exactly when the
  channel is closed, and the \<open>default\<close> branch otherwise.
\<close>

definition Stop :: "'f TopoHandler \<Rightarrow> 'f TopoHandler option" where
  "Stop t =
     (if term_closed t then Some t
      else
        let t1 = emit (LogInfo ''topo stop'') t;
            t2 = (emit CloseTerm t1)\<lparr>term_closed := True\<rparr>
        in
        case wg_Wait t2 of
          None \<Rightarrow> None
        | Some t3 \<Rightarrow> Some (emit (LogInfo ''topo stopped'') t3))"

subsection \<open>The broadcaster\<close>

text \<open>\<open>Topology\<close> reads \<open>t.p2p.URL()\<close>; the second argument is the value of \<open>time.Now()\<close>.\<close>

definition Topology :: "'f TopoHandler \<Rightarrow> GoTime \<Rightarrow> panic + Topo" where
  "Topology t now =
     (case p2p t of
        None \<Rightarrow> Inl NilPointerDereference
      | Some url \<Rightarrow> Inr \<lparr>Pivot = url, Peers = map (\<lambda>(k, p). PeerString p) (peers t), Time = now\<rparr>)"

text \<open>The body of \<open>case <-ticker.C\<close> in \<open>sendLoop\<close>: one tick of the broadcaster.\<close>

definition sendLoop_tick :: "'f env \<Rightarrow> GoTime \<Rightarrow> 'f TopoHandler \<Rightarrow> panic + 'f TopoHandler" where
  "sendLoop_tick env now t =
     (let t1 = emit (MonitorLogEvent ''topo'' ''send'') t in
      case Topology t1 now of
        Inl pn \<Rightarrow> Inl pn
      | Inr topo \<Rightarrow>
          (case Serialize env topo of
             Inl err \<Rightarrow> Inr (emit (LogError ''serialize topo error'') t1)
           | Inr data \<Rightarrow>
               (let t2 = emits (map (\<lambda>(k, peer). WriteMsg peer
                                  \<lparr>CmdSetID = CmdSet, Cmd = topoCmd, MsgId = 0,
                                   Size = of_nat (length data), Payload = data\<rparr>) (peers t1)) t1
                in write' t2 ''p2p_status_event'' (Json env topo))))"

text \<open>
  \<open>sendLoop\<close>, driven by the list of the branches its \<open>select\<close> takes, each tick with the
  time it reads. The branch \<open><-t.term\<close> can be taken only when the channel is closed; where
  the list names it earlier, that entry is passed over. When the list is used up the goroutine
  is waiting in its \<open>select\<close>.
\<close>

datatype select_case = TermCase | TickerCase GoTime

fun sendLoop :: "'f env \<Rightarrow> select_case list \<Rightarrow> 'f TopoHandler \<Rightarrow> panic + 'f TopoHandler" where
  "sendLoop env [] t = Inr t"
| "sendLoop env (TermCase # cs) t =
     (if term_closed t then Inr (sendLoop_term t) else sendLoop env cs t)"
| "sendLoop env (TickerCase now # cs) t =
     (case sendLoop_tick env now t of
        Inl pn \<Rightarrow> Inl pn
      | Inr t' \<Rightarrow> sendLoop env cs t')"

subsection \<open>The receive loop of one peer\<close>

text \<open>
  \<open>Handle\<close> is driven by the list of the results of \<open>rw.ReadMsg()\<close>; when the list is used
  up the loop is blocked in \<open>ReadMsg\<close> and the peer is still registered.
  In the source the statement after the command check is
  \<open>if t.Receive(msg, peer); err != nil\<close>: the result of \<open>Receive\<close> is dropped, and \<open>err\<close> is the
  error of \<open>ReadMsg\<close>, which is nil at that point.
\<close>

datatype read = ReadOk Msg | ReadErr error

datatype 'f outcome =
    Returned "error option" "'f TopoHandler"
  | Blocked "'f TopoHandler"
  | Panicked panic

fun Handle_loop :: "'f env \<Rightarrow> Peer \<Rightarrow> read list \<Rightarrow> 'f TopoHandler \<Rightarrow> 'f outcome" where
  "Handle_loop env peer [] t =
     (if term_closed t then Returned None t else Blocked t)"
| "Handle_loop env peer (ReadErr err # rs) t =
     (if term_closed t then Returned None t
      else Returned (Some err) (emit (LogError ''read msg error'') t))"
| "Handle_loop env peer (ReadOk msg # rs) t =
     (if term_closed t then Returned None t
      else
        let err = (None :: error option) in
        if Cmd msg \<noteq> topoCmd then Returned None (emit (LogError ''not topoMsg cmd'') t)
        else
          (case Receive env t msg peer of
             Inl pn \<Rightarrow> Panicked pn
           | Inr (dropped, t') \<Rightarrow>
               if err \<noteq> None then Returned err (emit (LogError ''Topo handle error'') t')
               else Handle_loop env peer rs t'))"

definition Handle :: "'f env \<Rightarrow> 'f TopoHandler \<Rightarrow> string \<Rightarrow> nat \<Rightarrow> read list \<Rightarrow> 'f outcome" where
  \<comment> \<open>\<open>p\<close> is \<open>p.String()\<close> of the \<open>*p2p.Peer\<close>, \<open>rw'\<close> its message channel\<close>
  "Handle env t p rw' rs =
     (let peer = \<lparr>PeerString = p, rw = rw'\<rparr>;
          t1 = t\<lparr>peers := Store p peer (peers t)\<rparr>
      in
      case Handle_loop env peer rs t1 of
        Returned err t' \<Rightarrow> Returned err (t'\<lparr>peers := Delete p (peers t')\<rparr>)
      | Blocked t' \<Rightarrow> Blocked t'
      | Panicked pn \<Rightarrow> Panicked pn)"

subsection \<open>The block queue\<close>

text \<open>
  \<open>ledger.AccountBlock\<close>, of which \<open>Enqueue\<close> reads the height (a \<open>*big.Int\<close>).
  The slice \<open>q.items\<close> is a window onto a backing array: \<open>backing\<close> is that array from the
  slice's first element to its capacity, \<open>items_len\<close> is \<open>len(q.items)\<close>.
\<close>

record AccountBlock =
  Height :: int

record BlockQueue =
  backing :: "AccountBlock list"
  items_len :: nat

definition items :: "BlockQueue \<Rightarrow> AccountBlock list" where
  "items q = take (items_len q) (backing q)"

definition wf_queue :: "BlockQueue \<Rightarrow> bool" where
  "wf_queue q = (items_len q \<le> length (backing q))"

text \<open>
  The slice expression \<open>q.items[0 : hi]\<close>: it panics unless \<open>0 \<le> hi \<le> cap(q.items)\<close>, and
  gives a slice of length \<open>hi\<close> on the same array.
\<close>

definition slice_to :: "AccountBlock list \<Rightarrow> int \<Rightarrow> panic + nat" where
  "slice_to arr hi =
     (if hi < 0 \<or> int (length arr) < hi then Inl SliceBoundsOutOfRange else Inr (nat hi))"

text \<open>
  \<open>append(newSlice, block)\<close> for a slice of length \<open>n\<close> on the array: with room left it
  writes the element at index \<open>n\<close> of the shared array; without room it copies into a
  new array and the shared one stays as it is.
\<close>

definition append_shared :: "AccountBlock list \<Rightarrow> nat \<Rightarrow> AccountBlock \<Rightarrow> AccountBlock list" where
  "append_shared arr n block = (if n < length arr then arr[n := block] else arr)"

text \<open>
  The loop \<open>for k, v := range q.items\<close>: the length is fixed when the loop starts, and
  \<open>v\<close> is read from the array at each round. \<open>newSlice\<close> is local and dropped.
\<close>

fun Enqueue_range :: "AccountBlock \<Rightarrow> nat list \<Rightarrow> AccountBlock list \<Rightarrow> panic + AccountBlock list" where
  "Enqueue_range block [] arr = Inr arr"
| "Enqueue_range block (k # ks) arr =
     (let v = arr ! k in
      if Height block < Height v then
        (case slice_to arr (int k - 1) of
           Inl pn \<Rightarrow> Inl pn
         | Inr n \<Rightarrow> Enqueue_range block ks (append_shared arr n block))
      else Enqueue_range block ks arr)"

definition Enqueue :: "BlockQueue \<Rightarrow> AccountBlock \<Rightarrow> panic + BlockQueue" where
  "Enqueue q block =
     (case Enqueue_range block [0 ..< items_len q] (backing q) of
        Inl pn \<Rightarrow> Inl pn
      | Inr arr \<Rightarrow> Inr (q\<lparr>backing := arr\<rparr>))"

subsection \<open>An instance of the environment\<close>

text \<open>
  An instance of \<open>env\<close>, to run the model on concrete inputs. Go strings are byte strings;
  a \<open>char\<close> is a byte.
\<close>

definition byte_of_char :: "char \<Rightarrow> byte" where
  "byte_of_char c = of_nat (of_char c)"

definition char_of_byte :: "byte \<Rightarrow> char" where
  "char_of_byte b = char_of (unat b)"

text \<open>The base-128 varint of the protobuf wire format, least significant group first.\<close>

function varint :: "nat \<Rightarrow> bytes" where
  "varint n = (if n < 128 then [of_nat n] else of_nat (n mod 128 + 128) # varint (n div 128))"
  by pat_completeness auto
termination
  by (relation "measure id") auto

declare varint.simps [simp del]

fun uvarint :: "bytes \<Rightarrow> (nat \<times> bytes) option" where
  "uvarint [] = None"
| "uvarint (b # bs) =
     (if b < 128 then Some (unat b, bs)
      else (case uvarint bs of
              None \<Rightarrow> None
            | Some (n, r) \<Rightarrow> Some (unat b - 128 + 128 * n, r)))"

definition str_field :: "byte \<Rightarrow> string \<Rightarrow> bytes" where
  \<comment> \<open>a length-delimited field: key, length, bytes\<close>
  "str_field tag s = tag # varint (length s) @ map byte_of_char s"

text \<open>
  Modelled from the spec: the schema of \<open>protos.Topo\<close> is not among the sources. The spec
  (4.1, 6) gives the payload as the binary encoding of pivot (string), peers (ordered
  sequence of strings) and observed_at (int64 Unix seconds), in this order; here they are
  the proto3 fields 1, 2 and 3 (keys 10, 18 and 24), a field with the default value being
  left out. The decoder refuses a key it does not know.
\<close>

definition wire_Marshal :: "pbTopo \<Rightarrow> error + bytes" where
  "wire_Marshal pb =
     Inr ((if pb_Pivot pb = [] then [] else str_field 10 (pb_Pivot pb))
          @ concat (map (str_field 18) (pb_Peers pb))
          @ (if pb_Time pb = 0 then [] else 24 # varint (unat (pb_Time pb))))"

function wire_fields :: "bytes \<Rightarrow> pbTopo \<Rightarrow> error + pbTopo" where
  "wire_fields [] pb = Inr pb"
| "wire_fields (b # bs) pb =
     (case uvarint (b # bs) of
        None \<Rightarrow> Inl (ProtoError ''unexpected EOF'')
      | Some (tag, r) \<Rightarrow>
          if tag = 10 \<or> tag = 18 then
            (case uvarint r of
               None \<Rightarrow> Inl (ProtoError ''unexpected EOF'')
             | Some (n, r') \<Rightarrow>
                 if length r' < n then Inl (ProtoError ''unexpected EOF'')
                 else
                   let s = map char_of_byte (take n r') in
                   wire_fields (drop n r')
                     (if tag = 10 then pb\<lparr>pb_Pivot := s\<rparr>
                      else pb\<lparr>pb_Peers := pb_Peers pb @ [s]\<rparr>))
          else if tag = 24 then
            (case uvarint r of
               None \<Rightarrow> Inl (ProtoError ''unexpected EOF'')
             | Some (v, r') \<Rightarrow> wire_fields r' (pb\<lparr>pb_Time := of_nat v\<rparr>))
          else Inl (ProtoError ''unknown field''))"
  by pat_completeness auto
termination
proof -
  have shrink: "uvarint xs = Some (n, r) \<Longrightarrow> length r < length xs" for xs n r
    by (induction xs arbitrary: n r) (auto split: if_splits option.splits)
  show ?thesis
    by (relation "measure (\<lambda>(buf, pb). length buf)")
       (auto simp del: uvarint.simps dest!: shrink)
qed

definition wire_Unmarshal :: "bytes \<Rightarrow> error + pbTopo" where
  "wire_Unmarshal buf = wire_fields buf \<lparr>pb_Pivot = [], pb_Peers = [], pb_Time = 0\<rparr>"

text \<open>
  Modelled from the spec: \<open>crypto.Hash\<close> is not among the sources. The spec (3, 6) asks for
  a deterministic digest of fixed length; this one repeats the sum of the bytes.
\<close>

definition sum_Hash :: "nat \<Rightarrow> bytes \<Rightarrow> bytes" where
  "sum_Hash size' data = replicate size' (sum_list data)"

text \<open>
  The filter of the instance is exact: the list of the digests inserted. \<open>InsertUnique\<close>
  inserts a digest that \<open>Lookup\<close> does not find, as the cuckoo filter's does.
\<close>

definition list_env :: "(bytes list) env" where
  "list_env =
     \<lparr>Marshal = wire_Marshal,
      Unmarshal = wire_Unmarshal,
      Hash = sum_Hash,
      Json = (\<lambda>topo. map byte_of_char (Pivot topo)),
      NewCuckooFilter = (\<lambda>capacity. []),
      Lookup = (\<lambda>f h. h \<in> set f),
      InsertUnique = (\<lambda>f h. if h \<in> set f then f else h # f),
      NewAsyncProducer = (\<lambda>addrs. Inr (AsyncProducer addrs))\<rparr>"

text \<open>Three peers, a handler that has them registered, and some messages.\<close>

definition peerA :: Peer where "peerA = \<lparr>PeerString = ''A'', rw = 1\<rparr>"
definition peerB :: Peer where "peerB = \<lparr>PeerString = ''B'', rw = 2\<rparr>"
definition peerC :: Peer where "peerC = \<lparr>PeerString = ''C'', rw = 3\<rparr>"

definition node0 :: "(bytes list) TopoHandler" where
  \<comment> \<open>built by \<open>New\<close> without addresses, started at the URL P, peers A, B and C connected\<close>
  "node0 =
     \<lparr>peers = [(''A'', peerA), (''B'', peerB), (''C'', peerC)], prod' = None,
      term_closed = False, record' = [], p2p = Some ''P'', wg = 1,
      trace = [WgAdd, GoSendLoop]\<rparr>"

definition wire0 :: bytes where
  \<comment> \<open>the encoding of pivot P, peers A and B, time 300\<close>
  "wire0 = [10, 1, 80, 18, 1, 65, 18, 1, 66, 24, 172, 2]"

definition topo_msg :: "bytes \<Rightarrow> Msg" where
  "topo_msg payload =
     \<lparr>CmdSetID = CmdSet, Cmd = topoCmd, MsgId = 0, Size = of_nat (length payload),
      Payload = payload\<rparr>"

definition good_msg :: Msg where
  "good_msg = topo_msg (replicate 32 7 @ wire0)"

definition bad_msg :: Msg where
  \<comment> \<open>a digest and a payload that does not decode\<close>
  "bad_msg = topo_msg (replicate 32 7 @ [1, 2, 3])"

definition short_msg :: Msg where
  "short_msg = topo_msg [1, 2, 3]"

definition node1 :: "(bytes list) TopoHandler" where
  \<comment> \<open>\<open>node0\<close> after it has seen the digest of \<open>good_msg\<close>\<close>
  "node1 = node0\<lparr>record' := [replicate 32 7]\<rparr>"

subsection \<open>Reading the trace\<close>

text \<open>What \<open>Receive\<close> does for the sink after the relay, when \<open>prod\<close> is not nil.\<close>

definition sink_events :: "'f env \<Rightarrow> 'f TopoHandler \<Rightarrow> Topo \<Rightarrow> event list" where
  "sink_events env t topo =
     (if prod' t \<noteq> None then
        [MonitorLogEvent ''topo'' ''report'',
         ProducerInput ''p2p_status_event'' (Json env topo),
         LogInfo ''report topoMsg to kafka'']
      else [])"

text \<open>The \<open>WriteMsg\<close> calls of a trace, in order: the peer written to and the message.\<close>

fun sends :: "event list \<Rightarrow> (Peer \<times> Msg) list" where
  "sends [] = []"
| "sends (WriteMsg p m # es) = (p, m) # sends es"
| "sends (e # es) = sends es"

definition pb0 :: pbTopo where
  \<comment> \<open>what \<open>wire0\<close> decodes to\<close>
  "pb0 = \<lparr>pb_Pivot = ''P'', pb_Peers = [''A'', ''B''], pb_Time = 300\<rparr>"

definition node0_relayed :: "(bytes list) TopoHandler" where
  \<comment> \<open>\<open>node0\<close> after it has received \<open>good_msg\<close> from peer A\<close>
  "node0_relayed =
     node0\<lparr>record' := [replicate 32 7],
           trace := [WgAdd, GoSendLoop,
                     FilterLookup (replicate 32 7), DeserializeCall wire0,
                     MonitorLogEvent ''topo'' ''receive'', FilterInsertUnique (replicate 32 7),
                     WriteMsg peerB good_msg, WriteMsg peerC good_msg,
                     Discard good_msg]\<rparr>"

section \<open>Properties\<close>

subsection \<open>The three outcomes of Receive after the length check\<close>

lemma Receive_accepted:
  assumes "32 \<le> length (Payload msg)"
    and "\<not> Lookup env (record' t) (take 32 (Payload msg))"
    and "Unmarshal env (drop 32 (Payload msg)) = Inr pb"
  shows "Receive env t msg sender
           = Inr (None,
                  t\<lparr>record' := InsertUnique env (record' t) (take 32 (Payload msg)),
                    trace := trace t @
                      [FilterLookup (take 32 (Payload msg)),
                       DeserializeCall (drop 32 (Payload msg)),
                       MonitorLogEvent ''topo'' ''receive'',
                       FilterInsertUnique (take 32 (Payload msg))]
                      @ relay msg sender (peers t)
                      @ sink_events env t
                          \<lparr>Pivot = pb_Pivot pb, Peers = pb_Peers pb, Time = time_Unix (pb_Time pb) 0\<rparr>
                      @ [Discard msg]\<rparr>)"
  using assms
  by (cases "prod' t")
     (simp_all add: Receive_def emit_def emits_def Let_def Deserialize_def new_Topo_def
        write'_def sink_events_def)

lemma Receive_decode_error:
  assumes "32 \<le> length (Payload msg)"
    and "\<not> Lookup env (record' t) (take 32 (Payload msg))"
    and "Unmarshal env (drop 32 (Payload msg)) = Inl err"
  shows "Receive env t msg sender
           = Inr (Some err,
                  t\<lparr>trace := trace t @
                      [FilterLookup (take 32 (Payload msg)),
                       DeserializeCall (drop 32 (Payload msg)),
                       LogError ''deserialize topoMsg error'',
                       Discard msg]\<rparr>)"
  using assms
  by (simp add: Receive_def emit_def Let_def Deserialize_def)

subsection \<open>Short and duplicate messages\<close>

text \<open>
  C4. A message whose payload is shorter than 32 bytes is rejected: \<open>Receive\<close> returns the
  error "receive invalid topoMsg" and the only thing it has done is the deferred
  \<open>msg.Discard()\<close>: no filter lookup or insert, no decode, no relay, no publish; the filter
  and the registry are as before.
\<close>

theorem Receive_short_payload:
  "length (Payload msg) < 32 \<Longrightarrow>
     Receive env t msg sender
       = Inr (Some (InvalidTopoMsg (PeerString sender)), t\<lparr>trace := trace t @ [Discard msg]\<rparr>)"
  by (simp add: Receive_def emit_def)

theorem Receive_short_payload_witness:
  "Receive list_env node0 short_msg peerA
     = Inr (Some (InvalidTopoMsg ''A''), node0\<lparr>trace := [WgAdd, GoSendLoop, Discard short_msg]\<rparr>)"
proof -
  have h: "length (Payload short_msg) < 32"
    by (simp add: short_msg_def topo_msg_def)
  show ?thesis
    using Receive_short_payload [OF h, of list_env node0 peerA]
    by (simp add: node0_def peerA_def)
qed

text \<open>
  C5, as the claim has it, fails: a message whose digest the filter already holds makes
  \<open>Receive\<close> return an error, "has received the same topoMsg". Here \<open>node1\<close> holds the
  digest of \<open>good_msg\<close>.
\<close>

theorem Receive_duplicate_counterexample:
  "Lookup list_env (record' node1) (take 32 (Payload good_msg)) \<and>
   Receive list_env node1 good_msg peerB
     = Inr (Some (SameTopoMsg (replicate 32 7)),
            node1\<lparr>trace := [WgAdd, GoSendLoop, FilterLookup (replicate 32 7), Discard good_msg]\<rparr>)"
  by (simp add: Receive_def emit_def Let_def node1_def node0_def good_msg_def topo_msg_def
        list_env_def)

text \<open>
  C5, amended. A message of at least 32 bytes whose digest the filter already holds is
  dropped: \<open>Receive\<close> looks the digest up, returns the error "has received the same topoMsg"
  with that digest, and does nothing else but the deferred \<open>msg.Discard()\<close>: it writes no
  log line, does not decode, does not insert, relays to no peer and publishes nothing; the
  filter and the registry are as before.
\<close>

theorem Receive_duplicate:
  assumes "32 \<le> length (Payload msg)"
    and "Lookup env (record' t) (take 32 (Payload msg))"
  shows "Receive env t msg sender
           = Inr (Some (SameTopoMsg (take 32 (Payload msg))),
                  t\<lparr>trace := trace t @ [FilterLookup (take 32 (Payload msg)), Discard msg]\<rparr>)"
  using assms by (simp add: Receive_def emit_def Let_def)

theorem Receive_duplicate_witness:
  "32 \<le> length (Payload good_msg) \<and>
   Lookup list_env (record' node1) (take 32 (Payload good_msg)) \<and>
   Receive list_env node1 good_msg peerC
     = Inr (Some (SameTopoMsg (take 32 (Payload good_msg))),
            node1\<lparr>trace := trace node1 @
                     [FilterLookup (take 32 (Payload good_msg)), Discard good_msg]\<rparr>)"
proof -
  have h1: "32 \<le> length (Payload good_msg)"
    by (simp add: good_msg_def topo_msg_def)
  have h2: "Lookup list_env (record' node1) (take 32 (Payload good_msg))"
    by (simp add: node1_def node0_def good_msg_def topo_msg_def list_env_def)
  show ?thesis
    using h1 h2 Receive_duplicate [OF h1 h2, of peerC] by simp
qed


subsection \<open>Facts about the trace and the concrete inputs\<close>

lemma Receive_short:
  "length (Payload msg) < 32 \<Longrightarrow>
     Receive env t msg sender
       = Inr (Some (InvalidTopoMsg (PeerString sender)), t\<lparr>trace := trace t @ [Discard msg]\<rparr>)"
  by (simp add: Receive_def emit_def)

lemma Receive_same:
  assumes "32 \<le> length (Payload msg)"
    and "Lookup env (record' t) (take 32 (Payload msg))"
  shows "Receive env t msg sender
           = Inr (Some (SameTopoMsg (take 32 (Payload msg))),
                  t\<lparr>trace := trace t @ [FilterLookup (take 32 (Payload msg)), Discard msg]\<rparr>)"
  using assms by (simp add: Receive_def emit_def Let_def)

lemma sends_append: "sends (xs @ ys) = sends xs @ sends ys"
  by (induction xs rule: sends.induct) simp_all

lemma sends_relay:
  "sends (relay msg sender ps)
     = map (\<lambda>(k, p). (p, msg)) (filter (\<lambda>(k, p). k \<noteq> PeerString sender) ps)"
  by (induction ps) auto

lemma sends_sink_events: "sends (sink_events env t topo) = []"
  by (simp add: sink_events_def)

lemma relay_only_WriteMsg: "e \<in> set (relay msg sender ps) \<Longrightarrow> \<exists>p. e = WriteMsg p msg"
  by (induction ps) (auto split: if_splits)

lemma sink_events_no_WriteMsg: "WriteMsg p m \<notin> set (sink_events env t topo)"
  by (simp add: sink_events_def)

lemma events_since_update [simp]:
  "events_since t (t\<lparr>trace := trace t @ es\<rparr>) = es"
  "events_since t (t\<lparr>record' := r, trace := trace t @ es\<rparr>) = es"
  by (simp_all add: events_since_def)

lemma nth_not_in_prefix:
  "(pre @ rest) ! i = e \<Longrightarrow> e \<notin> set pre \<Longrightarrow> length pre \<le> i"
  by (metis nth_append nth_mem not_le)

lemma wire0_decodes: "wire_Unmarshal wire0 = Inr pb0"
  unfolding wire0_def pb0_def by code_simp

lemma good_msg_length: "32 \<le> length (Payload good_msg)"
  by (simp add: good_msg_def topo_msg_def)

lemma good_msg_digest: "take 32 (Payload good_msg) = replicate 32 7"
  by (simp add: good_msg_def topo_msg_def)

lemma good_msg_body: "drop 32 (Payload good_msg) = wire0"
  by (simp add: good_msg_def topo_msg_def)

lemma good_msg_decodes: "Unmarshal list_env (drop 32 (Payload good_msg)) = Inr pb0"
  by (simp add: good_msg_body wire0_decodes list_env_def)

lemma node0_novel: "\<not> Lookup list_env (record' node0) (take 32 (Payload good_msg))"
  by (simp add: node0_def list_env_def)

lemma node0_registry: "\<forall>(k, p) \<in> set (peers node0). k = PeerString p"
  by (simp add: node0_def peerA_def peerB_def peerC_def)

lemma Receive_node0_good: "Receive list_env node0 good_msg peerA = Inr (None, node0_relayed)"
  by (simp add: Receive_accepted [OF good_msg_length node0_novel good_msg_decodes]
        good_msg_digest good_msg_body)
     (simp add: node0_def node0_relayed_def list_env_def sink_events_def peerA_def)

subsection \<open>Relay: order and targets\<close>

text \<open>
  C2. Whatever \<open>Receive\<close> returns, every \<open>WriteMsg\<close> it has made carries the received
  message itself, and the call \<open>InsertUnique\<close> of that message's 32-byte digest stands earlier
  in the trace of the same call.
\<close>

theorem Receive_insert_before_forward:
  assumes "Receive env t msg sender = Inr (err, t')"
    and "i < length (events_since t t')"
    and "events_since t t' ! i = WriteMsg p m"
  shows "m = msg \<and> (\<exists>j<i. events_since t t' ! j = FilterInsertUnique (take 32 (Payload m)))"
proof -
  consider (short) "length (Payload msg) < 32"
    | (dup) "32 \<le> length (Payload msg)" "Lookup env (record' t) (take 32 (Payload msg))"
    | (bad) e where "32 \<le> length (Payload msg)"
        "\<not> Lookup env (record' t) (take 32 (Payload msg))"
        "Unmarshal env (drop 32 (Payload msg)) = Inl e"
    | (ok) pb where "32 \<le> length (Payload msg)"
        "\<not> Lookup env (record' t) (take 32 (Payload msg))"
        "Unmarshal env (drop 32 (Payload msg)) = Inr pb"
    by (cases "Unmarshal env (drop 32 (Payload msg))") (metis not_less)+
  note cases = this
  have mem: "WriteMsg p m \<in> set (events_since t t')"
    using assms(2,3) by (metis nth_mem)
  from cases show ?thesis
  proof cases
    case short
    then have "events_since t t' = [Discard msg]"
      using assms(1) by (auto simp: Receive_short)
    with mem show ?thesis by simp
  next
    case dup
    then have "events_since t t' = [FilterLookup (take 32 (Payload msg)), Discard msg]"
      using assms(1) by (auto simp: Receive_same)
    with mem show ?thesis by simp
  next
    case bad
    then have "events_since t t'
                 = [FilterLookup (take 32 (Payload msg)), DeserializeCall (drop 32 (Payload msg)),
                    LogError ''deserialize topoMsg error'', Discard msg]"
      using assms(1) by (auto simp: Receive_decode_error)
    with mem show ?thesis by simp
  next
    case ok
    let ?pre = "[FilterLookup (take 32 (Payload msg)),
                 DeserializeCall (drop 32 (Payload msg)),
                 MonitorLogEvent ''topo'' ''receive'',
                 FilterInsertUnique (take 32 (Payload msg))]"
    let ?post = "sink_events env t
                   \<lparr>Pivot = pb_Pivot pb, Peers = pb_Peers pb, Time = time_Unix (pb_Time pb) 0\<rparr>
                 @ [Discard msg]"
    have ev: "events_since t t' = ?pre @ relay msg sender (peers t) @ ?post"
      using assms(1) ok by (auto simp: Receive_accepted)
    from mem have "WriteMsg p m \<in> set (relay msg sender (peers t))"
      unfolding ev by (auto simp: sink_events_no_WriteMsg)
    then have m: "m = msg"
      by (auto dest: relay_only_WriteMsg)
    have "(?pre @ relay msg sender (peers t) @ ?post) ! i = WriteMsg p m"
      using assms(3) ev by simp
    moreover have "WriteMsg p m \<notin> set ?pre"
      by simp
    ultimately have "length ?pre \<le> i"
      by (rule nth_not_in_prefix)
    then have "3 < i" by simp
    moreover have "events_since t t' ! 3 = FilterInsertUnique (take 32 (Payload msg))"
      unfolding ev by (simp add: nth_append)
    ultimately show ?thesis using m by blast
  qed
qed

theorem Receive_insert_before_forward_witness:
  "Receive list_env node0 good_msg peerA = Inr (None, node0_relayed) \<and>
   events_since node0 node0_relayed ! 4 = WriteMsg peerB good_msg \<and>
   (\<exists>j<4. events_since node0 node0_relayed ! j
             = FilterInsertUnique (take 32 (Payload good_msg)))"
proof -
  have h2: "4 < length (events_since node0 node0_relayed)"
    by (simp add: events_since_def node0_def node0_relayed_def)
  have h3: "events_since node0 node0_relayed ! 4 = WriteMsg peerB good_msg"
    by (simp add: events_since_def node0_def node0_relayed_def)
  show ?thesis
    using Receive_insert_before_forward [OF Receive_node0_good h2 h3] Receive_node0_good h3
    by simp
qed

text \<open>
  C3. A message that \<open>Receive\<close> accepts (at least 32 bytes, digest not in the filter,
  payload decodes) is written, once each and in the order of the registry, to the peers
  registered under a key other than \<open>sender.String()\<close>, and to nobody else. Handle
  registers every peer under its own \<open>String()\<close>; in such a registry no write goes to the
  sender.
\<close>

theorem Receive_relay_except_sender:
  assumes "32 \<le> length (Payload msg)"
    and "\<not> Lookup env (record' t) (take 32 (Payload msg))"
    and "Unmarshal env (drop 32 (Payload msg)) = Inr pb"
    and "\<forall>(k, p) \<in> set (peers t). k = PeerString p"
  shows "\<exists>t'. Receive env t msg sender = Inr (None, t') \<and>
           sends (events_since t t')
             = map (\<lambda>(k, p). (p, msg)) (filter (\<lambda>(k, p). k \<noteq> PeerString sender) (peers t)) \<and>
           (\<forall>m. (sender, m) \<notin> set (sends (events_since t t')))"
proof -
  let ?t' = "t\<lparr>record' := InsertUnique env (record' t) (take 32 (Payload msg)),
               trace := trace t @
                 [FilterLookup (take 32 (Payload msg)),
                  DeserializeCall (drop 32 (Payload msg)),
                  MonitorLogEvent ''topo'' ''receive'',
                  FilterInsertUnique (take 32 (Payload msg))]
                 @ relay msg sender (peers t)
                 @ sink_events env t
                     \<lparr>Pivot = pb_Pivot pb, Peers = pb_Peers pb, Time = time_Unix (pb_Time pb) 0\<rparr>
                 @ [Discard msg]\<rparr>"
  have r: "Receive env t msg sender = Inr (None, ?t')"
    using assms(1-3) by (rule Receive_accepted)
  have s: "sends (events_since t ?t')
             = map (\<lambda>(k, p). (p, msg)) (filter (\<lambda>(k, p). k \<noteq> PeerString sender) (peers t))"
    by (simp add: sends_append sends_relay sends_sink_events)
  have n: "(sender, m) \<notin> set (sends (events_since t ?t'))" for m
    unfolding s using assms(4) by auto
  from r s n show ?thesis by blast
qed

theorem Receive_relay_except_sender_witness:
  "\<exists>t'. Receive list_env node0 good_msg peerA = Inr (None, t') \<and>
        sends (events_since node0 t') = [(peerB, good_msg), (peerC, good_msg)] \<and>
        (\<forall>m. (peerA, m) \<notin> set (sends (events_since node0 t')))"
  using Receive_relay_except_sender
          [OF good_msg_length node0_novel good_msg_decodes node0_registry, of peerA]
  by (simp add: node0_def peerA_def)

end
